theory Spec2Isabelle
  imports Main "HOL-Library.Sublist"
begin

section \<open>Python strings\<close>

text \<open>
  A Python \<open>str\<close> is modelled as a \<open>string\<close>, one \<open>char\<close> per code point, which covers
  the code points below 256. The operations below are the \<open>str\<close> methods that
  \<open>main.py\<close> calls, with the arguments it passes.
\<close>

definition lstrip :: "string \<Rightarrow> string \<Rightarrow> string" where
  \<comment> \<open>\<open>s.lstrip(chars)\<close>: drops every leading character that occurs in \<open>chars\<close>.\<close>
  "lstrip s chars = dropWhile (\<lambda>c. c \<in> set chars) s"

definition rstrip :: "string \<Rightarrow> string \<Rightarrow> string" where
  \<comment> \<open>\<open>s.rstrip(chars)\<close>: drops every trailing character that occurs in \<open>chars\<close>.\<close>
  "rstrip s chars = rev (dropWhile (\<lambda>c. c \<in> set chars) (rev s))"

definition endswith :: "string \<Rightarrow> string \<Rightarrow> bool" where
  \<comment> \<open>\<open>s.endswith(t)\<close>\<close>
  "endswith s t = suffix t s"

definition split1 :: "string \<Rightarrow> char \<Rightarrow> string list" where
  \<comment> \<open>\<open>s.split(sep, 1)\<close> for a separator of one character: at most one split, at the
      first occurrence of the separator.\<close>
  "split1 s sep =
     (case dropWhile (\<lambda>c. c \<noteq> sep) s of
        [] \<Rightarrow> [s]
      | _ # rest \<Rightarrow> [takeWhile (\<lambda>c. c \<noteq> sep) s, rest])"

definition strip_leading_spec :: "string \<Rightarrow> string" where
  \<comment> \<open>The stripping the specification describes: one leading \<open>./\<close> or one leading \<open>/\<close>
      is removed, nothing else.\<close>
  "strip_leading_spec s =
     (if prefix ''./'' s then drop 2 s else if prefix ''/'' s then drop 1 s else s)"

definition starts_clean :: "string \<Rightarrow> bool" where
  \<comment> \<open>The path does not begin with a dot or a slash.\<close>
  "starts_clean s = (case s of [] \<Rightarrow> True | c # cs \<Rightarrow> c \<noteq> CHR ''.'' \<and> c \<noteq> CHR ''/'')"

section \<open>Python values read from JSON\<close>

text \<open>
  \<open>response.json()\<close> yields \<open>None\<close>, booleans, integers, strings, lists and dicts.
  Numbers with a fraction or an exponent (Python floats) are outside the model.
  A dict is an association list in insertion order, read with \<open>map_of\<close>; the dicts of
  the program have each key once.
\<close>

datatype json = JNull | JBool bool | JInt int | JStr string
  | JArr "json list" | JObj "(string \<times> json) list"

text \<open>
  The exceptions the Python runtime raises on the operations below, and \<open>External\<close> for
  one raised by the HTTP client (a transport failure, a body that is not JSON).
\<close>

datatype exn = TypeError | AttributeError | KeyError | IndexError | External string

definition and_then :: "exn + 'a \<Rightarrow> ('a \<Rightarrow> exn + 'b) \<Rightarrow> exn + 'b" where
  \<comment> \<open>Sequencing: an exception of the first statement ends the block.\<close>
  "and_then m f = (case m of Inl e \<Rightarrow> Inl e | Inr x \<Rightarrow> f x)"

fun hashable :: "json \<Rightarrow> bool" where
  "hashable (JArr xs) = False"
| "hashable (JObj kvs) = False"
| "hashable v = True"

fun is_dict :: "json \<Rightarrow> bool" where
  \<comment> \<open>\<open>isinstance(v, dict)\<close>\<close>
  "is_dict (JObj kvs) = True"
| "is_dict v = False"

fun is_str :: "json \<Rightarrow> bool" where
  \<comment> \<open>\<open>isinstance(v, str)\<close>\<close>
  "is_str (JStr s) = True"
| "is_str v = False"

fun truthy :: "json \<Rightarrow> bool" where
  \<comment> \<open>The truth value of \<open>v\<close> in \<open>if v\<close> and \<open>not v\<close>.\<close>
  "truthy JNull = False"
| "truthy (JBool b) = b"
| "truthy (JInt i) = (i \<noteq> 0)"
| "truthy (JStr s) = (s \<noteq> [])"
| "truthy (JArr xs) = (xs \<noteq> [])"
| "truthy (JObj kvs) = (kvs \<noteq> [])"

fun py_eq :: "json \<Rightarrow> json \<Rightarrow> bool"
  and py_eq_list :: "json list \<Rightarrow> json list \<Rightarrow> bool"
  and py_eq_items :: "(string \<times> json) list \<Rightarrow> (string \<times> json) list \<Rightarrow> bool" where
  \<comment> \<open>\<open>a == b\<close>: \<open>True\<close> and \<open>False\<close> are the integers 1 and 0, lists are compared
      element by element, dicts as mappings.\<close>
  "py_eq JNull b = (b = JNull)"
| "py_eq (JBool a) b =
     (case b of JBool c \<Rightarrow> a = c | JInt j \<Rightarrow> j = (if a then 1 else 0) | _ \<Rightarrow> False)"
| "py_eq (JInt i) b =
     (case b of JInt j \<Rightarrow> i = j | JBool c \<Rightarrow> i = (if c then 1 else 0) | _ \<Rightarrow> False)"
| "py_eq (JStr s) b = (b = JStr s)"
| "py_eq (JArr xs) b = (case b of JArr ys \<Rightarrow> py_eq_list xs ys | _ \<Rightarrow> False)"
| "py_eq (JObj kvs) b =
     (case b of JObj kws \<Rightarrow> length kvs = length kws \<and> py_eq_items kvs kws | _ \<Rightarrow> False)"
| "py_eq_list [] ys = (ys = [])"
| "py_eq_list (x # xs) ys =
     (case ys of [] \<Rightarrow> False | y # ys' \<Rightarrow> py_eq x y \<and> py_eq_list xs ys')"
| "py_eq_items [] kws = True"
| "py_eq_items ((k, v) # kvs) kws =
     ((case map_of kws k of None \<Rightarrow> False | Some w \<Rightarrow> py_eq v w) \<and> py_eq_items kvs kws)"

fun py_in :: "json \<Rightarrow> json \<Rightarrow> exn + bool" where
  \<comment> \<open>\<open>x in c\<close>: key membership in a dict (the key is hashed first), element
      membership in a list, substring test in a string.\<close>
  "py_in x (JObj kvs) =
     (if hashable x
      then Inr (case x of JStr k \<Rightarrow> k \<in> set (map fst kvs) | _ \<Rightarrow> False)
      else Inl TypeError)"
| "py_in x (JArr ys) = Inr (list_ex (\<lambda>y. py_eq y x) ys)"
| "py_in x (JStr s) = (case x of JStr t \<Rightarrow> Inr (sublist t s) | _ \<Rightarrow> Inl TypeError)"
| "py_in x c = Inl TypeError"

definition index :: "'a list \<Rightarrow> int \<Rightarrow> exn + 'a" where
  \<comment> \<open>\<open>xs[i]\<close> for an integer \<open>i\<close>; \<open>xs[-k]\<close> is the \<open>k\<close>-th element from the end.\<close>
  "index xs i =
     (if 0 \<le> i \<and> i < int (length xs) then Inr (xs ! nat i)
      else if i < 0 \<and> - i \<le> int (length xs) then Inr (xs ! nat (int (length xs) + i))
      else Inl IndexError)"

fun py_getitem :: "json \<Rightarrow> json \<Rightarrow> exn + json" where
  \<comment> \<open>\<open>c[k]\<close>\<close>
  "py_getitem (JObj kvs) k =
     (if hashable k
      then (case k of
              JStr s \<Rightarrow> (case map_of kvs s of None \<Rightarrow> Inl KeyError | Some v \<Rightarrow> Inr v)
            | _ \<Rightarrow> Inl KeyError)
      else Inl TypeError)"
| "py_getitem (JArr xs) k =
     (case k of
        JInt i \<Rightarrow> index xs i
      | JBool b \<Rightarrow> index xs (if b then 1 else 0)
      | _ \<Rightarrow> Inl TypeError)"
| "py_getitem (JStr s) k =
     (case k of
        JInt i \<Rightarrow> and_then (index s i) (\<lambda>c. Inr (JStr [c]))
      | JBool b \<Rightarrow> and_then (index s (if b then 1 else 0)) (\<lambda>c. Inr (JStr [c]))
      | _ \<Rightarrow> Inl TypeError)"
| "py_getitem c k = Inl TypeError"

fun py_get :: "json \<Rightarrow> string \<Rightarrow> json \<Rightarrow> exn + json" where
  \<comment> \<open>\<open>d.get(key, default)\<close>; only a dict has the method.\<close>
  "py_get (JObj kvs) key dflt = Inr (case map_of kvs key of None \<Rightarrow> dflt | Some v \<Rightarrow> v)"
| "py_get d key dflt = Inl AttributeError"

fun py_lstrip :: "json \<Rightarrow> string \<Rightarrow> exn + string" where
  \<comment> \<open>\<open>entry.lstrip(chars)\<close>; only a string has the method.\<close>
  "py_lstrip (JStr s) chars = Inr (lstrip s chars)"
| "py_lstrip v chars = Inl AttributeError"

section \<open>Entry resolution\<close>

text \<open>
  \<open>resolve_entry_file\<close> of \<open>main.py\<close>, in its three steps. The result \<open>None\<close> is
  Python's \<open>None\<close>.
\<close>

definition resolve_main :: "json \<Rightarrow> exn + string option" where
  \<comment> \<open>Step 3 and step 4: the \<open>main\<close> field, else \<open>None\<close>.\<close>
  "resolve_main package_json =
     and_then (py_in (JStr ''main'') package_json) (\<lambda>has_main.
       if has_main
       then and_then (py_getitem package_json (JStr ''main'')) (\<lambda>entry.
            and_then (py_lstrip entry ''./'') (\<lambda>s. Inr (Some s)))
       else Inr None)"

definition resolve_dot_export :: "json \<Rightarrow> json \<Rightarrow> exn + string option" where
  \<comment> \<open>Steps 2.1 and 2.2 on the value of \<open>exports["."]\<close>.\<close>
  "resolve_dot_export package_json dot_export =
     (if is_dict dot_export
      then and_then (py_in (JStr ''default'') dot_export) (\<lambda>has_default.
             if has_default
             then and_then (py_getitem dot_export (JStr ''default'')) (\<lambda>entry.
                  and_then (py_lstrip entry ''./'') (\<lambda>s. Inr (Some s)))
             else resolve_main package_json)
      else if is_str dot_export
      then and_then (py_lstrip dot_export ''./'') (\<lambda>s. Inr (Some s))
      else resolve_main package_json)"

definition resolve_exports :: "json \<Rightarrow> exn + string option" where
  \<comment> \<open>Step 2: the \<open>exports\<close> field.\<close>
  "resolve_exports package_json =
     and_then (py_in (JStr ''exports'') package_json) (\<lambda>has_exports.
       if has_exports
       then and_then (py_getitem package_json (JStr ''exports'')) (\<lambda>exports.
              if is_dict exports
              then and_then (py_in (JStr ''.'') exports) (\<lambda>has_dot.
                     if has_dot
                     then and_then (py_getitem exports (JStr ''.''))
                            (resolve_dot_export package_json)
                     else resolve_main package_json)
              else resolve_main package_json)
       else resolve_main package_json)"

definition resolve_entry_file :: "json \<Rightarrow> exn + string option" where
  \<comment> \<open>Step 1: the \<open>jsdelivr\<close> field.\<close>
  "resolve_entry_file package_json =
     and_then (py_in (JStr ''jsdelivr'') package_json) (\<lambda>has_jsdelivr.
       if has_jsdelivr
       then and_then (py_getitem package_json (JStr ''jsdelivr'')) (\<lambda>entry.
            and_then (py_lstrip entry ''./'') (\<lambda>s. Inr (Some s)))
       else resolve_exports package_json)"

section \<open>Text of a value\<close>

text \<open>
  \<open>str(v)\<close>, as an f-string inserts it: a string is inserted as it is, any other
  value by its \<open>repr\<close>. Inside a list or a dict a string is quoted and escaped the way
  \<open>repr\<close> does for code points below 256.
\<close>

fun str_nat :: "nat \<Rightarrow> string" where
  "str_nat n =
     (if n < 10 then [''0123456789'' ! n]
      else str_nat (n div 10) @ [''0123456789'' ! (n mod 10)])"

declare str_nat.simps [simp del]

definition str_int :: "int \<Rightarrow> string" where
  "str_int i = (if i < 0 then CHR ''-'' # str_nat (nat (- i)) else str_nat (nat i))"

definition hex2 :: "nat \<Rightarrow> string" where
  "hex2 n = [''0123456789abcdef'' ! (n div 16 mod 16), ''0123456789abcdef'' ! (n mod 16)]"

definition repr_char :: "char \<Rightarrow> char \<Rightarrow> string" where
  \<comment> \<open>One character of \<open>repr(s)\<close>, for the quote character chosen.\<close>
  "repr_char quote c =
     (let n = (of_char c :: nat) in
      if c = quote \<or> c = CHR 0x5C then [CHR 0x5C, c]
      else if c = CHR 0x09 then [CHR 0x5C, CHR ''t'']
      else if c = CHR 0x0A then [CHR 0x5C, CHR ''n'']
      else if c = CHR 0x0D then [CHR 0x5C, CHR ''r'']
      else if n < 32 \<or> n = 127 then [CHR 0x5C, CHR ''x''] @ hex2 n
      else if n < 127 then [c]
      else if n \<le> 160 \<or> n = 173 then [CHR 0x5C, CHR ''x''] @ hex2 n
      else [c])"

definition repr_str :: "string \<Rightarrow> string" where
  \<comment> \<open>\<open>repr(s)\<close>: single quotes, unless the string has a single quote and no
      double quote.\<close>
  "repr_str s =
     (let quote = (if CHR 0x27 \<in> set s \<and> CHR 0x22 \<notin> set s then CHR 0x22 else CHR 0x27)
      in quote # concat (map (repr_char quote) s) @ [quote])"

fun join :: "string \<Rightarrow> string list \<Rightarrow> string" where
  \<comment> \<open>\<open>sep.join(xs)\<close>\<close>
  "join sep [] = []"
| "join sep [x] = x"
| "join sep (x # y # xs) = x @ sep @ join sep (y # xs)"

fun py_repr :: "json \<Rightarrow> string"
  and py_repr_list :: "json list \<Rightarrow> string list"
  and py_repr_items :: "(string \<times> json) list \<Rightarrow> string list" where
  "py_repr JNull = ''None''"
| "py_repr (JBool b) = (if b then ''True'' else ''False'')"
| "py_repr (JInt i) = str_int i"
| "py_repr (JStr s) = repr_str s"
| "py_repr (JArr xs) = ''['' @ join '', '' (py_repr_list xs) @ '']''"
| "py_repr (JObj kvs) = ''{'' @ join '', '' (py_repr_items kvs) @ ''}''"
| "py_repr_list [] = []"
| "py_repr_list (x # xs) = py_repr x # py_repr_list xs"
| "py_repr_items [] = []"
| "py_repr_items ((k, v) # kvs) = (repr_str k @ '': '' @ py_repr v) # py_repr_items kvs"

definition py_str :: "json \<Rightarrow> string" where
  "py_str v = (case v of JStr s \<Rightarrow> s | _ \<Rightarrow> py_repr v)"

section \<open>The HTTP client and the responses\<close>

text \<open>
  What \<open>client.get(url)\<close> gives back: an exception, or a response of which the program
  reads the status code, \<open>response.json()\<close> (which raises on a body that is not JSON),
  the raw content and the \<open>content-type\<close> header.
\<close>

record upstream =
  up_status_code :: int
  up_json :: "exn + json"
  up_content :: string
  up_content_type :: "string option"

text \<open>
  The collaborators of a request: the network as seen by \<open>client.get\<close> while the request
  is handled, and \<open>str(e)\<close>, the text of an exception, which the Python runtime and the
  HTTP library fix. A handler requests each URL at most once (the registry URL and the
  two CDN URLs differ), so a function from URLs to replies loses nothing.
\<close>

record env =
  client_get :: "string \<Rightarrow> exn + upstream"
  str_exn :: "exn \<Rightarrow> string"

text \<open>
  The responses \<open>main.py\<close> constructs, with the arguments it passes. A handler returns
  its response together with the URLs it requested, in the order of the requests.
\<close>

datatype response =
    Response (content: string) (status_code: int) (media_type: "string option")
      (headers: "(string \<times> string) list")
  | HTMLResponse (content: string) (status_code: int)
  | RedirectResponse (url: string)

definition NPM_REGISTRY :: string where
  "NPM_REGISTRY = ''https://registry.npmjs.org''"

definition JSDELIVR_CDN :: string where
  "JSDELIVR_CDN = ''https://cdn.jsdelivr.net/npm''"

definition UNPKG_CDN :: string where
  "UNPKG_CDN = ''https://unpkg.com''"

section \<open>Fetching a file from the CDNs\<close>

definition content_type_of :: "upstream \<Rightarrow> string" where
  \<comment> \<open>\<open>response.headers.get("content-type", "text/plain")\<close>\<close>
  "content_type_of response =
     (case up_content_type response of None \<Rightarrow> ''text/plain'' | Some t \<Rightarrow> t)"

fun get_package_file_loop :: "env \<Rightarrow> string list \<Rightarrow> response \<times> string list" where
  \<comment> \<open>The \<open>for cdn_url in cdn_urls\<close> loop and the return after it.\<close>
  "get_package_file_loop env [] = (Response ''404 File Not Found'' 404 None [], [])"
| "get_package_file_loop env (cdn_url # cdn_urls) =
     (case client_get env cdn_url of
        Inl e \<Rightarrow>
          (case get_package_file_loop env cdn_urls of (r, calls) \<Rightarrow> (r, cdn_url # calls))
      | Inr response \<Rightarrow>
          if up_status_code response = 200
          then (let content_type = content_type_of response
                in (Response (up_content response) 200 (Some content_type)
                      [(''Content-Type'', content_type),
                       (''Access-Control-Allow-Origin'', ''*'')],
                    [cdn_url]))
          else (case get_package_file_loop env cdn_urls of
                  (r, calls) \<Rightarrow> (r, cdn_url # calls)))"

definition cdn_urls :: "string \<Rightarrow> json \<Rightarrow> string \<Rightarrow> string list" where
  "cdn_urls package_name version file_path =
     [JSDELIVR_CDN @ ''/'' @ package_name @ ''@'' @ py_str version @ ''/'' @ file_path,
      UNPKG_CDN @ ''/'' @ package_name @ ''@'' @ py_str version @ ''/'' @ file_path]"

definition get_package_file ::
  "env \<Rightarrow> string \<Rightarrow> json \<Rightarrow> string \<Rightarrow> response \<times> string list" where
  "get_package_file env package_name version file_path =
     get_package_file_loop env (cdn_urls package_name version file_path)"

section \<open>The entry handler\<close>

definition latest_version :: "json \<Rightarrow> exn + json" where
  \<comment> \<open>\<open>package_data.get("dist-tags", {}).get("latest")\<close>\<close>
  "latest_version package_data =
     and_then (py_get package_data ''dist-tags'' (JObj [])) (\<lambda>tags.
       py_get tags ''latest'' JNull)"

definition entry_version :: "string option \<Rightarrow> json \<Rightarrow> exn + json" where
  \<comment> \<open>\<open>if not version: version = ...\<close>; \<open>None\<close> and the empty string are false.\<close>
  "entry_version version package_data =
     (case version of
        None \<Rightarrow> latest_version package_data
      | Some v \<Rightarrow> if v = [] then latest_version package_data else Inr (JStr v))"

definition get_package_entry_try ::
  "env \<Rightarrow> string \<Rightarrow> string option \<Rightarrow> upstream \<Rightarrow> exn + response \<times> string list" where
  \<comment> \<open>The \<open>try\<close> block of \<open>get_package_entry\<close> after the registry has answered;
      the list holds the CDN URLs requested.\<close>
  "get_package_entry_try env package_name version response =
     (if up_status_code response = 404
      then Inr (Response ''404 Package Not Found'' 404 None [], [])
      else
        and_then (up_json response) (\<lambda>package_data.
        and_then (entry_version version package_data) (\<lambda>version.
        and_then (py_get package_data ''versions'' (JObj [])) (\<lambda>versions.
        and_then (py_in version versions) (\<lambda>present.
          if \<not> present
          then Inr (Response (''404 Version '' @ py_str version @ '' Not Found'') 404 None [],
                    [])
          else
            and_then (py_getitem package_data (JStr ''versions'')) (\<lambda>versions.
            and_then (py_getitem versions version) (\<lambda>version_data.
            and_then (resolve_entry_file version_data) (\<lambda>entry_file.
              case entry_file of
                None \<Rightarrow> Inr (Response ''404 Not Found'' 404 None [], [])
              | Some f \<Rightarrow> Inr (get_package_file env package_name version f)))))))))"

definition get_package_entry ::
  "env \<Rightarrow> string \<Rightarrow> string option \<Rightarrow> response \<times> string list" where
  "get_package_entry env package_name version =
     (let registry_url = NPM_REGISTRY @ ''/'' @ package_name in
      case client_get env registry_url of
        Inl e \<Rightarrow> (Response (''Error: '' @ str_exn env e) 500 None [], [registry_url])
      | Inr response \<Rightarrow>
          (case get_package_entry_try env package_name version response of
             Inl e \<Rightarrow> (Response (''Error: '' @ str_exn env e) 500 None [], [registry_url])
           | Inr (r, calls) \<Rightarrow> (r, registry_url # calls)))"

section \<open>The directory handlers\<close>

definition file_link :: "string \<Rightarrow> string" where
  \<open>file_link file_name =
     ''<li><a href="'' @ file_name @ ''">'' @ file_name @ ''</a></li>'' @ [CHR 0x0A]\<close>

definition directory_page :: "string \<Rightarrow> string" where
  \<open>directory_page package_name =
     (let files = [''index.js'', ''package.json'', ''README.md''];
          file_links = foldl (\<lambda>acc file_name. acc @ file_link file_name) [] files
      in ''<!DOCTYPE HTML>'' @ [CHR 0x0A]
       @ ''<html>'' @ [CHR 0x0A]
       @ ''<head>'' @ [CHR 0x0A]
       @ ''<meta charset="utf-8">'' @ [CHR 0x0A]
       @ ''<title>'' @ package_name @ ''</title>'' @ [CHR 0x0A]
       @ ''</head>'' @ [CHR 0x0A]
       @ ''<body>'' @ [CHR 0x0A]
       @ ''<h1>'' @ package_name @ ''</h1>'' @ [CHR 0x0A]
       @ ''<hr>'' @ [CHR 0x0A]
       @ ''<ul>'' @ [CHR 0x0A]
       @ file_links @ ''</ul>'' @ [CHR 0x0A]
       @ ''<hr>'' @ [CHR 0x0A]
       @ ''</body>'' @ [CHR 0x0A]
       @ ''</html>'')\<close>

definition get_package_directory_try :: "string \<Rightarrow> string \<Rightarrow> upstream \<Rightarrow> exn + response" where
  \<comment> \<open>The \<open>try\<close> block of \<open>get_package_directory\<close> after the registry has answered.\<close>
  "get_package_directory_try package_name version response =
     (if up_status_code response = 404
      then Inr (HTMLResponse ''<h1>404 Package Not Found</h1>'' 404)
      else
        and_then (up_json response) (\<lambda>package_data.
        and_then (py_get package_data ''versions'' (JObj [])) (\<lambda>versions.
        and_then (py_in (JStr version) versions) (\<lambda>present.
          if \<not> present
          then Inr (HTMLResponse (''<h1>404 Version '' @ version @ '' Not Found</h1>'') 404)
          else Inr (HTMLResponse (directory_page package_name) 200)))))"

definition get_package_directory :: "env \<Rightarrow> string \<Rightarrow> string \<Rightarrow> response \<times> string list" where
  "get_package_directory env package_name version =
     (let registry_url = NPM_REGISTRY @ ''/'' @ package_name in
      case and_then (client_get env registry_url)
             (get_package_directory_try package_name version) of
        Inl e \<Rightarrow> (HTMLResponse (''<h1>Error: '' @ str_exn env e @ ''</h1>'') 500, [registry_url])
      | Inr r \<Rightarrow> (r, [registry_url]))"

definition redirect_to_latest_try :: "string \<Rightarrow> upstream \<Rightarrow> exn + response" where
  \<comment> \<open>The \<open>try\<close> block of case 2 of \<open>handle_request\<close> after the registry has
      answered.\<close>
  "redirect_to_latest_try package_name response =
     (if up_status_code response = 404
      then Inr (HTMLResponse ''<h1>404 Package Not Found</h1>'' 404)
      else
        and_then (up_json response) (\<lambda>package_data.
        and_then (latest_version package_data) (\<lambda>latest.
          if truthy latest
          then Inr (RedirectResponse (''/'' @ package_name @ ''@'' @ py_str latest @ ''/''))
          else Inr (HTMLResponse ''<h1>Error: Cannot find latest version</h1>'' 500))))"

definition redirect_to_latest :: "env \<Rightarrow> string \<Rightarrow> response \<times> string list" where
  \<comment> \<open>Case 2 of \<open>handle_request\<close>, which the source writes in line, from the
      \<open>async with\<close> on.\<close>
  "redirect_to_latest env package_name =
     (let registry_url = NPM_REGISTRY @ ''/'' @ package_name in
      case and_then (client_get env registry_url) (redirect_to_latest_try package_name) of
        Inl e \<Rightarrow> (HTMLResponse (''<h1>Error: '' @ str_exn env e @ ''</h1>'') 500, [registry_url])
      | Inr r \<Rightarrow> (r, [registry_url]))"

section \<open>The request classifier\<close>

text \<open>
  \<open>handle_request\<close> is a chain of five tests, each returning from a handler.
  In a test \<open>"@" in full_path and ...\<close> the second part is evaluated only when the first
  holds, so \<open>split("@", 1)\<close> has two parts wherever part 1 is read.
\<close>

definition handle_request :: "env \<Rightarrow> string \<Rightarrow> response \<times> string list" where
  "handle_request env full_path =
     (if CHR ''@'' \<notin> set full_path \<and> \<not> endswith full_path ''/''
      then get_package_entry env full_path None
      else if CHR ''@'' \<notin> set full_path \<and> endswith full_path ''/''
      then (let package_name = rstrip full_path ''/''
            in redirect_to_latest env package_name)
      else if CHR ''@'' \<in> set full_path
              \<and> CHR ''/'' \<notin> set (split1 full_path (CHR ''@'') ! 1)
      then (let parts = split1 full_path (CHR ''@'')
            in get_package_entry env (parts ! 0) (Some (parts ! 1)))
      else if endswith full_path ''/''
              \<and> length (split1 (rstrip full_path ''/'') (CHR ''@'')) = 2
      then (let parts = split1 (rstrip full_path ''/'') (CHR ''@'')
            in get_package_directory env (parts ! 0) (parts ! 1))
      else if CHR ''@'' \<in> set full_path
              \<and> CHR ''/'' \<in> set (split1 full_path (CHR ''@'') ! 1)
      then (let parts = split1 full_path (CHR ''@'');
                version_and_path = split1 (parts ! 1) (CHR ''/'')
            in get_package_file env (parts ! 0) (JStr (version_and_path ! 0))
                 (version_and_path ! 1))
      else (Response ''404 Not Found'' 404 None [], []))"

text \<open>
  The same chain, returning which branch is taken and with which components: the
  request shapes of the specification.
\<close>

datatype request_shape =
    PackageEntry string
  | PackageDirLatest string
  | PackageEntryVersioned string string
  | PackageDirVersioned string string
  | PackageFileVersioned string string string
  | Unmatched

definition classify :: "string \<Rightarrow> request_shape" where
  "classify full_path =
     (if CHR ''@'' \<notin> set full_path \<and> \<not> endswith full_path ''/''
      then PackageEntry full_path
      else if CHR ''@'' \<notin> set full_path \<and> endswith full_path ''/''
      then (let package_name = rstrip full_path ''/''
            in PackageDirLatest package_name)
      else if CHR ''@'' \<in> set full_path
              \<and> CHR ''/'' \<notin> set (split1 full_path (CHR ''@'') ! 1)
      then (let parts = split1 full_path (CHR ''@'')
            in PackageEntryVersioned (parts ! 0) (parts ! 1))
      else if endswith full_path ''/''
              \<and> length (split1 (rstrip full_path ''/'') (CHR ''@'')) = 2
      then (let parts = split1 (rstrip full_path ''/'') (CHR ''@'')
            in PackageDirVersioned (parts ! 0) (parts ! 1))
      else if CHR ''@'' \<in> set full_path
              \<and> CHR ''/'' \<in> set (split1 full_path (CHR ''@'') ! 1)
      then (let parts = split1 full_path (CHR ''@'');
                version_and_path = split1 (parts ! 1) (CHR ''/'')
            in PackageFileVersioned (parts ! 0) (version_and_path ! 0) (version_and_path ! 1))
      else Unmatched)"

fun dispatch :: "env \<Rightarrow> request_shape \<Rightarrow> response \<times> string list" where
  \<comment> \<open>The handler call of each branch.\<close>
  "dispatch env (PackageEntry full_path) = get_package_entry env full_path None"
| "dispatch env (PackageDirLatest package_name) = redirect_to_latest env package_name"
| "dispatch env (PackageEntryVersioned package_name version) =
     get_package_entry env package_name (Some version)"
| "dispatch env (PackageDirVersioned package_name version) =
     get_package_directory env package_name version"
| "dispatch env (PackageFileVersioned package_name version file_path) =
     get_package_file env package_name (JStr version) file_path"
| "dispatch env Unmatched = (Response ''404 Not Found'' 404 None [], [])"

fun package_of :: "request_shape \<Rightarrow> string option" where
  \<comment> \<open>The package component a versioned shape hands to its handler.\<close>
  "package_of (PackageEntryVersioned package_name version) = Some package_name"
| "package_of (PackageDirVersioned package_name version) = Some package_name"
| "package_of (PackageFileVersioned package_name version file_path) = Some package_name"
| "package_of shape = None"

section \<open>Vocabulary of the claims and example networks\<close>

definition swallowed :: "env \<Rightarrow> string \<Rightarrow> bool" where
  \<comment> \<open>The candidate fails: the request raises, or the response is not a 200.\<close>
  "swallowed env cdn_url =
     (case client_get env cdn_url of Inl e \<Rightarrow> True | Inr response \<Rightarrow> up_status_code response \<noteq> 200)"

definition served :: "upstream \<Rightarrow> response" where
  \<comment> \<open>The outward response for a candidate's 200 response: its body, its content type
      (\<open>text/plain\<close> without the header) and the open CORS header.\<close>
  "served r =
     Response (up_content r) 200 (Some (content_type_of r))
       [(''Content-Type'', content_type_of r), (''Access-Control-Allow-Origin'', ''*'')]"

definition exn_text :: "exn \<Rightarrow> string" where
  \<comment> \<open>A text for each exception, for the examples.\<close>
  "exn_text e =
     (case e of
        TypeError \<Rightarrow> ''TypeError''
      | AttributeError \<Rightarrow> ''AttributeError''
      | KeyError \<Rightarrow> ''KeyError''
      | IndexError \<Rightarrow> ''IndexError''
      | External msg \<Rightarrow> msg)"

definition env_of :: "(string \<times> (exn + upstream)) list \<Rightarrow> env" where
  \<comment> \<open>A network given by a table from URLs to replies; any other URL is unreachable.\<close>
  "env_of table =
     \<lparr>client_get = (\<lambda>url. case map_of table url of
                               None \<Rightarrow> Inl (External ''connection refused'')
                             | Some reply \<Rightarrow> reply),
      str_exn = exn_text\<rparr>"

definition reply :: "int \<Rightarrow> exn + json \<Rightarrow> string \<Rightarrow> string option \<Rightarrow> exn + upstream" where
  "reply code parsed body ctype =
     Inr \<lparr>up_status_code = code, up_json = parsed, up_content = body,
          up_content_type = ctype\<rparr>"

definition not_json :: "exn + json" where
  \<comment> \<open>\<open>response.json()\<close> on a body that is not JSON.\<close>
  "not_json = Inl (External ''Expecting value: line 1 column 1 (char 0)'')"

definition vue_manifest :: json where
  "vue_manifest =
     JObj [(''name'', JStr ''vue''),
           (''dist-tags'', JObj [(''latest'', JStr ''3.3.4''), (''next'', JStr ''9.9.9'')]),
           (''versions'', JObj [(''3.3.4'', JObj [(''main'', JStr ''index.js'')])])]"

section \<open>Facts about the string operations\<close>

lemma split1_absent: "sep \<notin> set s \<Longrightarrow> split1 s sep = [s]"
proof -
  assume "sep \<notin> set s"
  then have "dropWhile (\<lambda>c. c \<noteq> sep) s = []" by auto
  then show ?thesis unfolding split1_def by (simp only: list.case)
qed

lemma split1_present:
  "sep \<in> set s \<Longrightarrow>
   split1 s sep = [takeWhile (\<lambda>c. c \<noteq> sep) s, tl (dropWhile (\<lambda>c. c \<noteq> sep) s)]"
  by (cases "dropWhile (\<lambda>c. c \<noteq> sep) s") (auto simp: split1_def dropWhile_eq_Nil_conv)

lemma length_split1: "length (split1 s sep) = (if sep \<in> set s then 2 else 1)"
  by (simp add: split1_absent split1_present)

lemma at_in_rstrip: "CHR ''@'' \<in> set (rstrip s ''/'') \<longleftrightarrow> CHR ''@'' \<in> set s"
proof -
  have "set (takeWhile (\<lambda>c. c \<in> set ''/'') (rev s)) \<subseteq> {CHR ''/''}"
    using set_takeWhileD by fastforce
  moreover have "set s = set (takeWhile (\<lambda>c. c \<in> set ''/'') (rev s))
      \<union> set (dropWhile (\<lambda>c. c \<in> set ''/'') (rev s))"
    by (metis set_append set_rev takeWhile_dropWhile_id)
  ultimately show ?thesis by (auto simp: rstrip_def)
qed

lemma rstrip_before_at:
  "CHR ''@'' \<in> set s \<Longrightarrow>
   takeWhile (\<lambda>c. c \<noteq> CHR ''@'') (rstrip s ''/'') = takeWhile (\<lambda>c. c \<noteq> CHR ''@'') s"
proof (induction s rule: rev_induct)
  case Nil
  then show ?case by simp
next
  case (snoc x xs)
  show ?case
  proof (cases "x = CHR ''/''")
    case True
    with snoc.prems have mem: "CHR ''@'' \<in> set xs" by auto
    have "rstrip (xs @ [x]) ''/'' = rstrip xs ''/''"
      using True by (simp add: rstrip_def)
    moreover have "takeWhile (\<lambda>c. c \<noteq> CHR ''@'') (xs @ [x])
        = takeWhile (\<lambda>c. c \<noteq> CHR ''@'') xs"
      using mem by (simp add: takeWhile_append1)
    ultimately show ?thesis using snoc.IH [OF mem] by simp
  next
    case False
    then have "rstrip (xs @ [x]) ''/'' = xs @ [x]"
      by (simp add: rstrip_def)
    then show ?thesis by simp
  qed
qed

section \<open>Facts about sequencing and dicts\<close>

lemma and_then_Inr [simp]: "and_then (Inr x) f = f x"
  by (simp add: and_then_def)

lemma and_then_Inl [simp]: "and_then (Inl e) f = Inl e"
  by (simp add: and_then_def)

lemma py_in_dict_str [simp]:
  "py_in (JStr k) (JObj kvs) = Inr (k \<in> fst ` set kvs)"
  by simp

lemma py_getitem_dict_str:
  "py_getitem (JObj kvs) (JStr k) =
     (case map_of kvs k of None \<Rightarrow> Inl KeyError | Some v \<Rightarrow> Inr v)"
  by simp

section \<open>Entry resolution: the absence law\<close>

text \<open>
  C6. A version manifest (a dict) with none of the fields \<open>jsdelivr\<close>, \<open>exports\<close> and
  \<open>main\<close> resolves to \<open>None\<close>: no exception, and no string, so in particular not the
  empty string.
\<close>

theorem resolve_entry_file_absent:
  assumes "''jsdelivr'' \<notin> fst ` set kvs"
    and "''exports'' \<notin> fst ` set kvs"
    and "''main'' \<notin> fst ` set kvs"
  shows "resolve_entry_file (JObj kvs) = Inr None
    \<and> resolve_entry_file (JObj kvs) \<noteq> Inr (Some '''')"
  using assms
  by (simp add: resolve_entry_file_def resolve_exports_def resolve_main_def)

theorem resolve_entry_file_absent_witness:
  "''jsdelivr'' \<notin> fst ` set [(''name'', JStr ''left-pad''), (''version'', JStr ''1.3.0'')]
   \<and> ''exports'' \<notin> fst ` set [(''name'', JStr ''left-pad''), (''version'', JStr ''1.3.0'')]
   \<and> ''main'' \<notin> fst ` set [(''name'', JStr ''left-pad''), (''version'', JStr ''1.3.0'')]
   \<and> resolve_entry_file (JObj [(''name'', JStr ''left-pad''), (''version'', JStr ''1.3.0'')])
       = Inr None
   \<and> resolve_entry_file (JObj [(''name'', JStr ''left-pad''), (''version'', JStr ''1.3.0'')])
       \<noteq> Inr (Some '''')"
  using resolve_entry_file_absent
    [of "[(''name'', JStr ''left-pad''), (''version'', JStr ''1.3.0'')]"]
  by simp

section \<open>Entry resolution: priority and fallback\<close>

lemma lstrip_clean: "starts_clean s \<Longrightarrow> lstrip s ''./'' = s"
  by (cases s) (auto simp: starts_clean_def lstrip_def)

lemma lstrip_strip_leading_spec:
  "starts_clean (strip_leading_spec s) \<Longrightarrow> lstrip s ''./'' = strip_leading_spec s"
proof (cases s)
  case Nil
  then show ?thesis by (simp add: lstrip_def strip_leading_spec_def)
next
  case (Cons c cs)
  assume clean: "starts_clean (strip_leading_spec s)"
  show ?thesis
  proof (cases "prefix ''./'' s")
    case True
    then obtain t where s: "s = ''./'' @ t" by (auto simp: prefix_def)
    with clean have "starts_clean t" by (simp add: strip_leading_spec_def)
    then have "lstrip t ''./'' = t" by (rule lstrip_clean)
    then show ?thesis using s by (simp add: strip_leading_spec_def lstrip_def)
  next
    case no_dot_slash: False
    show ?thesis
    proof (cases "prefix ''/'' s")
      case True
      then obtain t where s: "s = ''/'' @ t" by (auto simp: prefix_def)
      with clean no_dot_slash have "starts_clean t" by (simp add: strip_leading_spec_def)
      then have "lstrip t ''./'' = t" by (rule lstrip_clean)
      then show ?thesis using s by (simp add: strip_leading_spec_def lstrip_def)
    next
      case False
      with clean no_dot_slash have "starts_clean s" by (simp add: strip_leading_spec_def)
      then have "lstrip s ''./'' = s" by (rule lstrip_clean)
      then show ?thesis using False no_dot_slash by (simp add: strip_leading_spec_def)
    qed
  qed
qed

lemma map_of_fst: "map_of kvs k = Some v \<Longrightarrow> k \<in> fst ` set kvs"
  by (metis map_of_eq_None_iff option.distinct(1))

lemma resolve_entry_file_jsdelivr:
  assumes "map_of kvs ''jsdelivr'' = Some (JStr j)"
  shows "resolve_entry_file (JObj kvs) = Inr (Some (lstrip j ''./''))"
  using assms map_of_fst [OF assms]
  by (simp add: resolve_entry_file_def)

lemma resolve_main_dict:
  assumes "map_of kvs ''main'' = Some (JStr m)"
  shows "resolve_main (JObj kvs) = Inr (Some (lstrip m ''./''))"
  using assms map_of_fst [OF assms]
  by (simp add: resolve_main_def)

lemma resolve_exports_no_default:
  assumes "map_of kvs ''exports'' = Some (JObj exports)"
    and "map_of exports ''.'' = Some (JObj dot)"
    and "''default'' \<notin> fst ` set dot"
  shows "resolve_exports (JObj kvs) = resolve_main (JObj kvs)"
  using assms map_of_fst [OF assms(1)] map_of_fst [OF assms(2)]
  by (simp add: resolve_exports_def resolve_dot_export_def)

text \<open>
  C1 fails on the code. \<open>entry.lstrip("./")\<close> drops every leading dot and slash, not
  one leading \<open>./\<close>: with \<open>jsdelivr\<close> and \<open>main\<close> both present, the \<open>jsdelivr\<close> value
  \<open>.output/cdn.js\<close> resolves to \<open>output/cdn.js\<close>, where stripping one leading \<open>./\<close> or
  \<open>/\<close> leaves it as it is.
\<close>

theorem jsdelivr_overstripped:
  "resolve_entry_file (JObj [(''jsdelivr'', JStr ''.output/cdn.js''), (''main'', JStr ''index.js'')])
     = Inr (Some ''output/cdn.js'')
   \<and> strip_leading_spec ''.output/cdn.js'' = ''.output/cdn.js''"
  by (simp add: resolve_entry_file_def lstrip_def strip_leading_spec_def)

lemma resolve_entry_file_falls_to_main:
  assumes "''jsdelivr'' \<notin> fst ` set kvs"
    and "map_of kvs ''exports'' = Some (JObj exports)"
    and "map_of exports ''.'' = Some (JObj dot)"
    and "''default'' \<notin> fst ` set dot"
    and "map_of kvs ''main'' = Some (JStr m)"
  shows "resolve_entry_file (JObj kvs) = Inr (Some (lstrip m ''./''))"
proof -
  have "resolve_entry_file (JObj kvs) = resolve_exports (JObj kvs)"
    using assms(1) by (simp add: resolve_entry_file_def)
  also have "\<dots> = resolve_main (JObj kvs)"
    using assms(2-4) by (rule resolve_exports_no_default)
  also have "\<dots> = Inr (Some (lstrip m ''./''))"
    using assms(5) by (rule resolve_main_dict)
  finally show ?thesis .
qed

text \<open>
  C5, as the code has it. In every version manifest without \<open>jsdelivr\<close>, where
  \<open>exports["."]\<close> is a dict without \<open>default\<close> and \<open>main\<close> is a string, the entry is
  taken from \<open>main\<close> and is not \<open>None\<close>: it is what \<open>lstrip\<close> leaves of \<open>main\<close>, an end
  piece of it. Whenever \<open>main\<close> without its leading \<open>./\<close> or \<open>/\<close> does not begin with
  a further dot or slash, the entry is \<open>main\<close> stripped of that leading \<open>./\<close> or \<open>/\<close>.
\<close>

theorem exports_without_default_falls_to_main:
  assumes "''jsdelivr'' \<notin> fst ` set kvs"
    and "map_of kvs ''exports'' = Some (JObj exports)"
    and "map_of exports ''.'' = Some (JObj dot)"
    and "''default'' \<notin> fst ` set dot"
    and "map_of kvs ''main'' = Some (JStr m)"
  shows "resolve_entry_file (JObj kvs) = Inr (Some (lstrip m ''./''))
    \<and> resolve_entry_file (JObj kvs) \<noteq> Inr None
    \<and> suffix (lstrip m ''./'') m
    \<and> (starts_clean (strip_leading_spec m)
         \<longrightarrow> resolve_entry_file (JObj kvs) = Inr (Some (strip_leading_spec m)))"
proof -
  have entry: "resolve_entry_file (JObj kvs) = Inr (Some (lstrip m ''./''))"
    using assms by (rule resolve_entry_file_falls_to_main)
  moreover have "suffix (lstrip m ''./'') m"
    by (simp add: lstrip_def suffix_dropWhile)
  ultimately show ?thesis
    by (simp add: lstrip_strip_leading_spec)
qed

theorem exports_without_default_falls_to_main_witness:
  "''jsdelivr'' \<notin> fst ` set [(''exports'', JObj [(''.'', JObj [(''import'', JStr ''./esm/index.js'')])]),
                               (''main'', JStr ''./lib/index.js'')]
   \<and> map_of [(''exports'', JObj [(''.'', JObj [(''import'', JStr ''./esm/index.js'')])]),
              (''main'', JStr ''./lib/index.js'')] ''exports''
       = Some (JObj [(''.'', JObj [(''import'', JStr ''./esm/index.js'')])])
   \<and> map_of [(''.'', JObj [(''import'', JStr ''./esm/index.js'')])] ''.''
       = Some (JObj [(''import'', JStr ''./esm/index.js'')])
   \<and> ''default'' \<notin> fst ` set [(''import'', JStr ''./esm/index.js'')]
   \<and> map_of [(''exports'', JObj [(''.'', JObj [(''import'', JStr ''./esm/index.js'')])]),
              (''main'', JStr ''./lib/index.js'')] ''main''
       = Some (JStr ''./lib/index.js'')
   \<and> starts_clean (strip_leading_spec ''./lib/index.js'')
   \<and> strip_leading_spec ''./lib/index.js'' = ''lib/index.js''
   \<and> resolve_entry_file
        (JObj [(''exports'', JObj [(''.'', JObj [(''import'', JStr ''./esm/index.js'')])]),
               (''main'', JStr ''./lib/index.js'')])
       = Inr (Some ''lib/index.js'')
   \<and> resolve_entry_file
        (JObj [(''exports'', JObj [(''.'', JObj [(''import'', JStr ''./esm/index.js'')])]),
               (''main'', JStr ''../lib/index.js'')])
       = Inr (Some ''lib/index.js'')
   \<and> resolve_entry_file
        (JObj [(''exports'', JObj [(''.'', JObj [(''import'', JStr ''./esm/index.js'')])]),
               (''main'', JStr ''../lib/index.js'')])
       \<noteq> Inr None"
  using exports_without_default_falls_to_main
    [of "[(''exports'', JObj [(''.'', JObj [(''import'', JStr ''./esm/index.js'')])]),
          (''main'', JStr ''./lib/index.js'')]"
        "[(''.'', JObj [(''import'', JStr ''./esm/index.js'')])]"
        "[(''import'', JStr ''./esm/index.js'')]" "''./lib/index.js''"]
    exports_without_default_falls_to_main
    [of "[(''exports'', JObj [(''.'', JObj [(''import'', JStr ''./esm/index.js'')])]),
          (''main'', JStr ''../lib/index.js'')]"
        "[(''.'', JObj [(''import'', JStr ''./esm/index.js'')])]"
        "[(''import'', JStr ''./esm/index.js'')]" "''../lib/index.js''"]
  by (simp add: starts_clean_def strip_leading_spec_def lstrip_def)

text \<open>
  The claim C5 itself fails in two ways. When \<open>jsdelivr\<close> is present, step 1 returns
  before \<open>exports\<close> and \<open>main\<close> are read. And for the \<open>main\<close> value
  \<open>.output/index.js\<close> the entry is \<open>output/index.js\<close>, not the value stripped of a
  leading \<open>./\<close> or \<open>/\<close>.
\<close>

theorem main_fallback_counterexample:
  "resolve_entry_file (JObj [(''jsdelivr'', JStr ''dist/cdn.js''),
      (''exports'', JObj [(''.'', JObj [(''import'', JStr ''./esm/index.js'')])]),
      (''main'', JStr ''index.js'')])
     = Inr (Some ''dist/cdn.js'')
   \<and> resolve_entry_file (JObj [(''jsdelivr'', JStr ''dist/cdn.js''),
      (''exports'', JObj [(''.'', JObj [(''import'', JStr ''./esm/index.js'')])]),
      (''main'', JStr ''index.js'')])
     \<noteq> Inr (Some (strip_leading_spec ''index.js''))
   \<and> resolve_entry_file (JObj [
      (''exports'', JObj [(''.'', JObj [(''import'', JStr ''./esm/index.js'')])]),
      (''main'', JStr ''.output/index.js'')])
     = Inr (Some ''output/index.js'')
   \<and> resolve_entry_file (JObj [
      (''exports'', JObj [(''.'', JObj [(''import'', JStr ''./esm/index.js'')])]),
      (''main'', JStr ''.output/index.js'')])
     \<noteq> Inr (Some (strip_leading_spec ''.output/index.js''))"
  by (simp add: resolve_entry_file_def resolve_exports_def resolve_dot_export_def
      resolve_main_def lstrip_def strip_leading_spec_def)

section \<open>The classifier\<close>

lemma handle_request_classify:
  "handle_request env full_path = dispatch env (classify full_path)"
  by (simp add: handle_request_def classify_def Let_def)

text \<open>
  C4. Every path is handled as exactly one shape: \<open>handle_request\<close> is the handler call
  of the shape \<open>classify\<close> computes for the path. The five example paths of the
  specification get the five shapes it names, with the components shown.
\<close>

theorem classify_examples:
  "handle_request env full_path = dispatch env (classify full_path)
   \<and> classify ''lodash'' = PackageEntry ''lodash''
   \<and> classify ''lodash/'' = PackageDirLatest ''lodash''
   \<and> classify ''lodash@4.17.21'' = PackageEntryVersioned ''lodash'' ''4.17.21''
   \<and> classify ''lodash@4.17.21/'' = PackageDirVersioned ''lodash'' ''4.17.21''
   \<and> classify ''lodash@4.17.21/dist/lodash.js''
       = PackageFileVersioned ''lodash'' ''4.17.21'' ''dist/lodash.js''"
proof -
  have "classify ''lodash'' = PackageEntry ''lodash''"
    by (simp add: classify_def endswith_def suffix_to_prefix)
  moreover have "classify ''lodash/'' = PackageDirLatest ''lodash''"
    by (simp add: classify_def endswith_def suffix_to_prefix rstrip_def)
  moreover have "classify ''lodash@4.17.21'' = PackageEntryVersioned ''lodash'' ''4.17.21''"
    by (simp add: classify_def endswith_def suffix_to_prefix split1_def)
  moreover have "classify ''lodash@4.17.21/'' = PackageDirVersioned ''lodash'' ''4.17.21''"
    by (simp add: classify_def endswith_def suffix_to_prefix rstrip_def split1_def)
  moreover have "classify ''lodash@4.17.21/dist/lodash.js''
      = PackageFileVersioned ''lodash'' ''4.17.21'' ''dist/lodash.js''"
    by (simp add: classify_def endswith_def suffix_to_prefix rstrip_def split1_def)
  ultimately show ?thesis
    using handle_request_classify by simp
qed

lemma loop_calls: "snd (get_package_file_loop env (u # us)) \<noteq> []"
  by (simp add: Let_def split: sum.splits prod.splits)

lemma get_package_file_calls: "snd (get_package_file env package_name version file_path) \<noteq> []"
  unfolding get_package_file_def cdn_urls_def by (rule loop_calls)

lemma get_package_entry_calls: "snd (get_package_entry env package_name version) \<noteq> []"
  by (simp add: get_package_entry_def Let_def split: sum.splits prod.splits)

lemma get_package_directory_calls: "snd (get_package_directory env package_name version) \<noteq> []"
  by (simp add: get_package_directory_def Let_def split: sum.splits)

lemma redirect_to_latest_calls: "snd (redirect_to_latest env package_name) \<noteq> []"
  by (simp add: redirect_to_latest_def Let_def split: sum.splits)

lemma classify_not_unmatched: "classify full_path \<noteq> Unmatched"
  by (simp add: classify_def Let_def length_split1 at_in_rstrip)

text \<open>
  C10. The last branch of \<open>handle_request\<close> is never taken: for every path,
  \<open>handle_request\<close> is the handler call of a shape other than \<open>Unmatched\<close>. A path
  without \<open>@\<close> is an entry request or a latest-directory request; a path with \<open>@\<close>
  is a versioned entry, a versioned directory or a versioned file request. Every handler
  requests at least one URL, so the result is never the bare 404 of the last line, which
  requests none. This holds for every string, the empty one included.
\<close>

theorem unmatched_unreachable:
  "handle_request env full_path = dispatch env (classify full_path)
   \<and> classify full_path \<noteq> Unmatched
   \<and> (case classify full_path of
        PackageEntry p \<Rightarrow> CHR ''@'' \<notin> set full_path
      | PackageDirLatest p \<Rightarrow> CHR ''@'' \<notin> set full_path
      | PackageEntryVersioned p v \<Rightarrow> CHR ''@'' \<in> set full_path
      | PackageDirVersioned p v \<Rightarrow> CHR ''@'' \<in> set full_path
      | PackageFileVersioned p v f \<Rightarrow> CHR ''@'' \<in> set full_path
      | Unmatched \<Rightarrow> False)
   \<and> snd (handle_request env full_path) \<noteq> []
   \<and> handle_request env full_path \<noteq> (Response ''404 Not Found'' 404 None [], [])"
proof -
  have shape: "case classify full_path of
        PackageEntry p \<Rightarrow> CHR ''@'' \<notin> set full_path
      | PackageDirLatest p \<Rightarrow> CHR ''@'' \<notin> set full_path
      | PackageEntryVersioned p v \<Rightarrow> CHR ''@'' \<in> set full_path
      | PackageDirVersioned p v \<Rightarrow> CHR ''@'' \<in> set full_path
      | PackageFileVersioned p v f \<Rightarrow> CHR ''@'' \<in> set full_path
      | Unmatched \<Rightarrow> False"
    by (simp add: classify_def Let_def length_split1 at_in_rstrip)
  have calls: "snd (dispatch env (classify full_path)) \<noteq> []"
    using classify_not_unmatched [of full_path]
    by (cases "classify full_path")
      (simp_all add: get_package_entry_calls redirect_to_latest_calls
        get_package_directory_calls get_package_file_calls)
  show ?thesis
    using shape calls classify_not_unmatched [of full_path]
    by (auto simp: handle_request_classify)
qed

text \<open>
  C3, as the code has it. The split is at the first \<open>@\<close>: for every path that contains
  \<open>@\<close>, the package component handed to the handler is the text before the first
  \<open>@\<close>. For a path that starts with \<open>@scope/\<close> the first \<open>@\<close> is the scope marker, so
  the package component is empty and the scoped name is not kept.
\<close>

theorem package_before_first_at:
  assumes "CHR ''@'' \<in> set full_path"
  shows "package_of (classify full_path)
    = Some (takeWhile (\<lambda>c. c \<noteq> CHR ''@'') full_path)"
  using assms
  by (simp add: classify_def Let_def split1_present at_in_rstrip rstrip_before_at
      length_split1)

theorem package_before_first_at_witness:
  "CHR ''@'' \<in> set ''@vue/shared@1.0.0''
   \<and> package_of (classify ''@vue/shared@1.0.0'') = Some ''''"
  using package_before_first_at [of "''@vue/shared@1.0.0''"]
  by simp

text \<open>
  The claim C3 itself fails: \<open>@vue/shared@1.0.0\<close> and \<open>@vue/shared\<close> are dispatched as
  file requests for the package with the empty name at version \<open>vue\<close>.
\<close>

theorem scoped_name_not_kept:
  "classify ''@vue/shared@1.0.0'' = PackageFileVersioned '''' ''vue'' ''shared@1.0.0''
   \<and> package_of (classify ''@vue/shared@1.0.0'') \<noteq> Some ''@vue/shared''
   \<and> classify ''@vue/shared'' = PackageFileVersioned '''' ''vue'' ''shared''
   \<and> package_of (classify ''@vue/shared'') \<noteq> Some ''@vue/shared''"
  by (simp add: classify_def endswith_def suffix_to_prefix rstrip_def split1_def)

section \<open>The content fetcher\<close>

lemma env_of_get:
  "client_get (env_of table) u =
     (case map_of table u of None \<Rightarrow> Inl (External ''connection refused'') | Some x \<Rightarrow> x)"
  by (simp add: env_of_def)

lemma env_of_str [simp]: "str_exn (env_of table) = exn_text"
  by (simp add: env_of_def)

text \<open>
  C7. \<open>get_package_file\<close> asks jsDelivr first and unpkg second. A 200 from jsDelivr is
  the result and unpkg is not asked; when jsDelivr raises or answers another status, a
  200 from unpkg is the result; when both fail the result is the 404 response. A result
  from a CDN carries the CDN's body and content type (\<open>text/plain\<close> without the header)
  and the header \<open>Access-Control-Allow-Origin: *\<close>.
\<close>

theorem get_package_file_fallback:
  fixes env package_name version file_path r
  defines "a \<equiv> JSDELIVR_CDN @ ''/'' @ package_name @ ''@'' @ py_str version @ ''/'' @ file_path"
    and "b \<equiv> UNPKG_CDN @ ''/'' @ package_name @ ''@'' @ py_str version @ ''/'' @ file_path"
  shows "(client_get env a = Inr r \<and> up_status_code r = 200
            \<longrightarrow> get_package_file env package_name version file_path = (served r, [a]))
       \<and> (swallowed env a \<and> client_get env b = Inr r \<and> up_status_code r = 200
            \<longrightarrow> get_package_file env package_name version file_path = (served r, [a, b]))
       \<and> (swallowed env a \<and> swallowed env b
            \<longrightarrow> get_package_file env package_name version file_path
                = (Response ''404 File Not Found'' 404 None [], [a, b]))"
proof -
  have "get_package_file env package_name version file_path = get_package_file_loop env [a, b]"
    by (simp add: get_package_file_def cdn_urls_def a_def b_def)
  then show ?thesis
    by (auto simp: swallowed_def served_def Let_def split: sum.splits)
qed

theorem get_package_file_fallback_witness:
  "get_package_file
     (env_of [(''https://cdn.jsdelivr.net/npm/vue@3.3.4/index.js'',
               reply 200 not_json ''export {}'' (Some ''application/javascript''))])
     ''vue'' (JStr ''3.3.4'') ''index.js''
   = (Response ''export {}'' 200 (Some ''application/javascript'')
        [(''Content-Type'', ''application/javascript''), (''Access-Control-Allow-Origin'', ''*'')],
      [''https://cdn.jsdelivr.net/npm/vue@3.3.4/index.js''])
   \<and> get_package_file
     (env_of [(''https://unpkg.com/vue@3.3.4/index.js'', reply 200 not_json ''export {}'' None)])
     ''vue'' (JStr ''3.3.4'') ''index.js''
   = (Response ''export {}'' 200 (Some ''text/plain'')
        [(''Content-Type'', ''text/plain''), (''Access-Control-Allow-Origin'', ''*'')],
      [''https://cdn.jsdelivr.net/npm/vue@3.3.4/index.js'',
       ''https://unpkg.com/vue@3.3.4/index.js''])
   \<and> get_package_file
     (env_of [(''https://cdn.jsdelivr.net/npm/vue@3.3.4/index.js'',
               reply 503 not_json ''unavailable'' None)])
     ''vue'' (JStr ''3.3.4'') ''index.js''
   = (Response ''404 File Not Found'' 404 None [],
      [''https://cdn.jsdelivr.net/npm/vue@3.3.4/index.js'',
       ''https://unpkg.com/vue@3.3.4/index.js''])"
proof -
  let ?a = "''https://cdn.jsdelivr.net/npm/vue@3.3.4/index.js''"
  let ?b = "''https://unpkg.com/vue@3.3.4/index.js''"
  let ?r1 = "\<lparr>up_status_code = 200, up_json = not_json, up_content = ''export {}'',
              up_content_type = Some ''application/javascript''\<rparr>"
  let ?r2 = "\<lparr>up_status_code = 200, up_json = not_json, up_content = ''export {}'',
              up_content_type = None\<rparr>"
  have urls: "JSDELIVR_CDN @ ''/'' @ ''vue'' @ ''@'' @ py_str (JStr ''3.3.4'') @ ''/'' @ ''index.js'' = ?a"
    "UNPKG_CDN @ ''/'' @ ''vue'' @ ''@'' @ py_str (JStr ''3.3.4'') @ ''/'' @ ''index.js'' = ?b"
    by (simp_all add: JSDELIVR_CDN_def UNPKG_CDN_def py_str_def)
  have first: "get_package_file (env_of [(?a, reply 200 not_json ''export {}'' (Some ''application/javascript''))])
       ''vue'' (JStr ''3.3.4'') ''index.js'' = (served ?r1, [?a])"
    using get_package_file_fallback
      [of "env_of [(?a, reply 200 not_json ''export {}'' (Some ''application/javascript''))]"
          "''vue''" "JStr ''3.3.4''" "''index.js''" ?r1]
    unfolding urls by (simp add: env_of_get reply_def)
  have second: "get_package_file (env_of [(?b, reply 200 not_json ''export {}'' None)])
       ''vue'' (JStr ''3.3.4'') ''index.js'' = (served ?r2, [?a, ?b])"
    using get_package_file_fallback
      [of "env_of [(?b, reply 200 not_json ''export {}'' None)]"
          "''vue''" "JStr ''3.3.4''" "''index.js''" ?r2]
    unfolding urls by (simp add: env_of_get reply_def swallowed_def)
  have third: "get_package_file (env_of [(?a, reply 503 not_json ''unavailable'' None)])
       ''vue'' (JStr ''3.3.4'') ''index.js'' = (Response ''404 File Not Found'' 404 None [], [?a, ?b])"
    using get_package_file_fallback
      [of "env_of [(?a, reply 503 not_json ''unavailable'' None)]"
          "''vue''" "JStr ''3.3.4''" "''index.js''"]
    unfolding urls by (simp add: env_of_get reply_def swallowed_def)
  show ?thesis
    unfolding first second third by (simp add: served_def content_type_of_def)
qed

section \<open>The entry handler\<close>

lemma status_only_404_matters:
  assumes "up_status_code r \<noteq> 404" and "up_status_code r' \<noteq> 404" and "up_json r = up_json r'"
  shows "get_package_entry_try env package_name version r
    = get_package_entry_try env package_name version r'"
  using assms by (simp add: get_package_entry_try_def)

text \<open>
  C9. When the registry answers the manifest request with status 404, the entry handler
  responds 404 and the registry URL is the only URL requested: no CDN is asked.
\<close>

theorem registry_404_no_cdn_call:
  assumes "client_get env (NPM_REGISTRY @ ''/'' @ package_name) = Inr response"
    and "up_status_code response = 404"
  shows "get_package_entry env package_name version
    = (Response ''404 Package Not Found'' 404 None [], [NPM_REGISTRY @ ''/'' @ package_name])"
  using assms
  by (simp add: get_package_entry_def get_package_entry_try_def)

theorem registry_404_no_cdn_call_witness:
  "client_get (env_of [(''https://registry.npmjs.org/doesnotexist123'', reply 404 not_json ''Not found'' None)])
      (NPM_REGISTRY @ ''/'' @ ''doesnotexist123'')
     = Inr \<lparr>up_status_code = 404, up_json = not_json, up_content = ''Not found'',
            up_content_type = None\<rparr>
   \<and> up_status_code \<lparr>up_status_code = 404, up_json = not_json, up_content = ''Not found'',
            up_content_type = None\<rparr> = 404
   \<and> get_package_entry (env_of [(''https://registry.npmjs.org/doesnotexist123'', reply 404 not_json ''Not found'' None)])
       ''doesnotexist123'' None
     = (Response ''404 Package Not Found'' 404 None [], [''https://registry.npmjs.org/doesnotexist123''])"
  using registry_404_no_cdn_call
    [of "env_of [(''https://registry.npmjs.org/doesnotexist123'', reply 404 not_json ''Not found'' None)]"
        "''doesnotexist123''"
        "\<lparr>up_status_code = 404, up_json = not_json, up_content = ''Not found'',
            up_content_type = None\<rparr>" None]
  by (simp add: env_of_get reply_def NPM_REGISTRY_def)

text \<open>
  C8, as the code has it. For an entry request pinned to a non-empty version \<open>v\<close> that
  is not a key of the manifest's \<open>versions\<close> mapping (the empty mapping when the field
  is absent), whatever the dist-tags say, the handler responds 404 with the body
  \<open>404 Version v Not Found\<close>, and the registry URL is the only URL requested.
\<close>

theorem pinned_version_missing:
  assumes "client_get env (NPM_REGISTRY @ ''/'' @ package_name) = Inr response"
    and "up_status_code response \<noteq> 404"
    and "up_json response = Inr package_data"
    and "py_get package_data ''versions'' (JObj []) = Inr (JObj versions)"
    and "v \<notin> fst ` set versions"
    and "v \<noteq> []"
  shows "get_package_entry env package_name (Some v)
    = (Response (''404 Version '' @ v @ '' Not Found'') 404 None [],
       [NPM_REGISTRY @ ''/'' @ package_name])"
  using assms
  by (simp add: get_package_entry_def get_package_entry_try_def entry_version_def py_str_def)

theorem pinned_version_missing_witness:
  "client_get (env_of [(''https://registry.npmjs.org/vue'', reply 200 (Inr vue_manifest) [] None)])
      (NPM_REGISTRY @ ''/'' @ ''vue'')
     = Inr \<lparr>up_status_code = 200, up_json = Inr vue_manifest, up_content = [],
            up_content_type = None\<rparr>
   \<and> up_status_code \<lparr>up_status_code = 200, up_json = Inr vue_manifest, up_content = [],
            up_content_type = None\<rparr> \<noteq> 404
   \<and> up_json \<lparr>up_status_code = 200, up_json = Inr vue_manifest, up_content = [],
            up_content_type = None\<rparr> = Inr vue_manifest
   \<and> py_get vue_manifest ''versions'' (JObj [])
     = Inr (JObj [(''3.3.4'', JObj [(''main'', JStr ''index.js'')])])
   \<and> ''9.9.9'' \<notin> fst ` set [(''3.3.4'', JObj [(''main'', JStr ''index.js'')])]
   \<and> ''9.9.9'' \<noteq> []
   \<and> get_package_entry
       (env_of [(''https://registry.npmjs.org/vue'', reply 200 (Inr vue_manifest) [] None)])
       ''vue'' (Some ''9.9.9'')
     = (Response ''404 Version 9.9.9 Not Found'' 404 None [],
        [''https://registry.npmjs.org/vue''])"
  using pinned_version_missing
    [of "env_of [(''https://registry.npmjs.org/vue'', reply 200 (Inr vue_manifest) [] None)]"
        "''vue''"
        "\<lparr>up_status_code = 200, up_json = Inr vue_manifest, up_content = [],
            up_content_type = None\<rparr>"
        vue_manifest "[(''3.3.4'', JObj [(''main'', JStr ''index.js'')])]" "''9.9.9''"]
  by (simp add: env_of_get reply_def NPM_REGISTRY_def vue_manifest_def)

text \<open>
  The claim C8 itself fails for the empty version string, which the path \<open>vue@\<close> pins:
  \<open>not version\<close> holds for it, the latest version is served and a CDN is asked.
\<close>

theorem empty_version_serves_latest:
  "py_in (JStr '''') (JObj [(''3.3.4'', JObj [(''main'', JStr ''index.js'')])]) = Inr False
   \<and> classify ''vue@'' = PackageEntryVersioned ''vue'' ''''
   \<and> get_package_entry
       (env_of [(''https://registry.npmjs.org/vue'', reply 200 (Inr vue_manifest) [] None),
                (''https://cdn.jsdelivr.net/npm/vue@3.3.4/index.js'',
                 reply 200 not_json ''export {}'' (Some ''application/javascript''))])
       ''vue'' (Some '''')
     = (Response ''export {}'' 200 (Some ''application/javascript'')
          [(''Content-Type'', ''application/javascript''),
           (''Access-Control-Allow-Origin'', ''*'')],
        [''https://registry.npmjs.org/vue'',
         ''https://cdn.jsdelivr.net/npm/vue@3.3.4/index.js''])"
proof -
  have "classify ''vue@'' = PackageEntryVersioned ''vue'' ''''"
    by (simp add: classify_def endswith_def suffix_to_prefix split1_def)
  moreover have "resolve_entry_file (JObj [(''main'', JStr ''index.js'')]) = Inr (Some ''index.js'')"
    by (simp add: resolve_entry_file_def resolve_exports_def resolve_main_def lstrip_def)
  ultimately show ?thesis
    by (simp add: get_package_entry_def get_package_entry_try_def entry_version_def
        latest_version_def vue_manifest_def env_of_get reply_def NPM_REGISTRY_def
        get_package_file_def cdn_urls_def JSDELIVR_CDN_def UNPKG_CDN_def py_str_def
        content_type_of_def Let_def)
qed

text \<open>
  C2, as the code has it. When the registry answers with a status other than 404 and
  \<open>response.json()\<close> raises \<open>e\<close> on the body, the entry handler responds 500 with the
  body \<open>Error: \<close> followed by the text of \<open>e\<close>. Only the status 404 is tested: a body
  that is JSON is processed as a manifest whatever the status.
\<close>

theorem registry_body_not_json:
  assumes "client_get env (NPM_REGISTRY @ ''/'' @ package_name) = Inr response"
    and "up_status_code response \<noteq> 404"
    and "up_json response = Inl e"
  shows "get_package_entry env package_name version
    = (Response (''Error: '' @ str_exn env e) 500 None [], [NPM_REGISTRY @ ''/'' @ package_name])"
  using assms
  by (simp add: get_package_entry_def get_package_entry_try_def)

theorem registry_body_not_json_witness:
  "client_get (env_of [(''https://registry.npmjs.org/vue'', reply 502 not_json ''Bad Gateway'' None)])
      (NPM_REGISTRY @ ''/'' @ ''vue'')
     = Inr \<lparr>up_status_code = 502, up_json = not_json, up_content = ''Bad Gateway'',
            up_content_type = None\<rparr>
   \<and> up_status_code \<lparr>up_status_code = 502, up_json = not_json, up_content = ''Bad Gateway'',
            up_content_type = None\<rparr> \<noteq> 404
   \<and> up_json \<lparr>up_status_code = 502, up_json = not_json, up_content = ''Bad Gateway'',
            up_content_type = None\<rparr>
     = Inl (External ''Expecting value: line 1 column 1 (char 0)'')
   \<and> get_package_entry
       (env_of [(''https://registry.npmjs.org/vue'', reply 502 not_json ''Bad Gateway'' None)])
       ''vue'' None
     = (Response ''Error: Expecting value: line 1 column 1 (char 0)'' 500 None [],
        [''https://registry.npmjs.org/vue''])"
  using registry_body_not_json
    [of "env_of [(''https://registry.npmjs.org/vue'', reply 502 not_json ''Bad Gateway'' None)]"
        "''vue''"
        "\<lparr>up_status_code = 502, up_json = not_json, up_content = ''Bad Gateway'',
            up_content_type = None\<rparr>"
        "External ''Expecting value: line 1 column 1 (char 0)''" None]
  by (simp add: env_of_get reply_def NPM_REGISTRY_def not_json_def exn_text_def)

text \<open>
  The claim C2 itself fails for a 500 response whose body is a JSON object: the handler
  reads it as a manifest without versions and responds 404.
\<close>

theorem registry_500_with_json_gives_404:
  "get_package_entry
     (env_of [(''https://registry.npmjs.org/vue'',
               reply 500 (Inr (JObj [(''error'', JStr ''Internal Server Error'')])) [] None)])
     ''vue'' None
   = (Response ''404 Version None Not Found'' 404 None [], [''https://registry.npmjs.org/vue''])"
  by (simp add: get_package_entry_def get_package_entry_try_def entry_version_def
      latest_version_def env_of_get reply_def NPM_REGISTRY_def py_str_def)

end
